theory Spec2Isabelle
  imports Complex_Main
begin

section \<open>Insider-selling signal detection (backend/analyzer.py)\<close>

text \<open>
  A shallow embedding of \<^verbatim>\<open>SECFilingAnalyzer.detect_insider_selling_signal\<close> and
  \<^verbatim>\<open>SECFilingAnalyzer._calculate_confidence\<close>.

  Conventions of the embedding.
  \<^item> Python \<^verbatim>\<open>int\<close> is \<^typ>\<open>int\<close>; Python \<^verbatim>\<open>float\<close> is idealised as \<^typ>\<open>real\<close>:
    every arithmetic operation is exact, rounding to binary64, infinities and NaN are
    not modelled. So a comparison whose two sides are equal as reals can come out
    differently in binary64, \<^verbatim>\<open>round\<close> follows the exact value, and the
    \<^verbatim>\<open>OverflowError\<close> of converting an int beyond the float range is not a branch of the
    model.
  \<^item> A raised exception is a value \<open>Inl e\<close> of the result type; the order in which the
    source evaluates the raising operations is kept.
  \<^item> \<^verbatim>\<open>datetime.fromisoformat\<close> belongs to the Python library. It is a parameter of the
    detector: a function from the date string to a timestamp, \<open>None\<close> where the library
    raises \<^verbatim>\<open>ValueError\<close>. A timestamp is a naive datetime, counted in microseconds;
    strings with a UTC offset, whose comparison with a naive datetime raises
    \<^verbatim>\<open>TypeError\<close>, are outside the model.
  \<^item> Strings are byte strings; \<^verbatim>\<open>str.lower\<close> is modelled on the ASCII letters, which are
    the only letters the keys of the role table contain.
  \<^item> The field \<^verbatim>\<open>detected_at\<close> (the wall clock) is left out of the signal record.
\<close>

subsection \<open>Data model\<close>

datatype py_error = ZeroDivisionError | ValueError

type_synonym datetime = int

record InsiderTransaction =
  insider_name :: string
  title :: string
  transaction_date :: string
  shares_sold :: int
  shares_bought :: int
  shares_owned_after :: int
  transaction_type :: string

text \<open>The dictionary \<^verbatim>\<open>details\<close> of a signal; the three values the source rounds to two
  decimals carry the suffix \<open>_2dp\<close>.\<close>

record SignalDetails =
  total_shares_sold :: int
  total_shares_bought :: int
  percentage_sold_2dp :: real
  effective_percentage_2dp :: real
  threshold_given :: real
  num_transactions :: nat
  num_unique_insiders :: nat
  insiders :: "string set"
  roles :: "string set"
  role_multiplier_2dp :: real
  time_clustered :: "bool option"
  date_range_days :: int

record InsiderSignal =
  signal_type :: string
  company_symbol :: string
  filing_type :: string
  confidence :: real
  threshold_exceeded :: bool
  threshold_value :: real
  details :: SignalDetails
  filing_url :: string

text \<open>The local variables of the detector before the threshold test (lines 199--228).\<close>

record DetectionMetrics =
  total_sold :: int
  total_bought :: int
  weighted_sold :: real
  role_multiplier :: real
  percentage_sold :: real
  effective_percentage :: real

subsection \<open>Strings: \<^verbatim>\<open>lower\<close> and the substring test \<^verbatim>\<open>in\<close>\<close>

text \<open>An upper-case ASCII letter (codes 65 to 90) has bit 5 clear; its lower-case form is
  the code plus 32, that is the same byte with bit 5 set.\<close>

fun char_lower :: "char \<Rightarrow> char" where
  "char_lower (Char b0 b1 b2 b3 b4 b5 b6 b7) =
     (let n = (of_char (Char b0 b1 b2 b3 b4 b5 b6 b7) :: nat)
      in if 65 \<le> n \<and> n \<le> 90 then Char b0 b1 b2 b3 b4 True b6 b7
         else Char b0 b1 b2 b3 b4 b5 b6 b7)"

definition str_lower :: "string \<Rightarrow> string" where
  "str_lower s = map char_lower s"

fun startswith :: "string \<Rightarrow> string \<Rightarrow> bool" where
  "startswith s [] = True"
| "startswith [] (p # ps) = False"
| "startswith (c # cs) (p # ps) = (c = p \<and> startswith cs ps)"

text \<open>\<open>str_in sub s\<close> is Python's \<^verbatim>\<open>sub in s\<close> on strings.\<close>

fun str_in :: "string \<Rightarrow> string \<Rightarrow> bool" where
  "str_in sub [] = (sub = [])"
| "str_in sub (c # cs) = (startswith (c # cs) sub \<or> str_in sub cs)"

subsection \<open>The role table and the weight of a title (lines 182--210)\<close>

definition ROLE_WEIGHTS :: "(string \<times> real) list" where
  "ROLE_WEIGHTS =
     [(''ceo'', 1.5),
      (''chief executive officer'', 1.5),
      (''cfo'', 1.4),
      (''chief financial officer'', 1.4),
      (''coo'', 1.3),
      (''chief operating officer'', 1.3),
      (''president'', 1.3),
      (''cto'', 1.2),
      (''chief technology officer'', 1.2),
      (''director'', 1.0),
      (''officer'', 0.9),
      (''insider'', 0.8),
      (''10% owner'', 0.7)]"

text \<open>The inner loop over \<^verbatim>\<open>ROLE_WEIGHTS.items()\<close>, with the running \<^verbatim>\<open>weight\<close>.\<close>

fun weight_loop :: "string \<Rightarrow> real \<Rightarrow> (string \<times> real) list \<Rightarrow> real" where
  "weight_loop title_lower weight [] = weight"
| "weight_loop title_lower weight ((role, w) # items) =
     weight_loop title_lower (if str_in role title_lower then max weight w else weight) items"

definition role_weight :: "string \<Rightarrow> real" where
  "role_weight ttl = weight_loop (str_lower ttl) 1.0 ROLE_WEIGHTS"

subsection \<open>Arithmetic that can raise\<close>

text \<open>True division \<^verbatim>\<open>a / b\<close> of two Python ints, and of two floats: both raise
  \<^verbatim>\<open>ZeroDivisionError\<close> on a zero divisor.\<close>

definition int_truediv :: "int \<Rightarrow> int \<Rightarrow> py_error + real" where
  "int_truediv a b = (if b = 0 then Inl ZeroDivisionError else Inr (real_of_int a / real_of_int b))"

definition float_truediv :: "real \<Rightarrow> real \<Rightarrow> py_error + real" where
  "float_truediv a b = (if b = 0 then Inl ZeroDivisionError else Inr (a / b))"

text \<open>\<^verbatim>\<open>round(x, 2)\<close>: to the nearest multiple of 1/100, a tie going to the even one.\<close>

definition py_round2 :: "real \<Rightarrow> real" where
  "py_round2 x =
     (let y = x * 100; f = \<lfloor>y\<rfloor>; r = y - of_int f
      in (if r < 1 / 2 then of_int f
          else if 1 / 2 < r then of_int (f + 1)
          else if even f then of_int f else of_int (f + 1)) / 100)"

subsection \<open>The loop over the transactions (lines 199--215)\<close>

text \<open>The accumulators are \<^verbatim>\<open>total_sold\<close>, \<^verbatim>\<open>total_bought\<close>, \<^verbatim>\<open>weighted_sold\<close> and
  \<^verbatim>\<open>role_multiplier\<close>, in this order.\<close>

fun transactions_loop ::
  "InsiderTransaction list \<Rightarrow> int \<Rightarrow> int \<Rightarrow> real \<Rightarrow> real \<Rightarrow> int \<times> int \<times> real \<times> real" where
  "transactions_loop [] sold bought wsold mult = (sold, bought, wsold, mult)"
| "transactions_loop (t # ts) sold bought wsold mult =
     (let weight = role_weight (title t)
      in transactions_loop ts
           (sold + shares_sold t)
           (bought + shares_bought t)
           (wsold + real_of_int (shares_sold t) * weight)
           (max mult weight))"

text \<open>Lines 199--228, for a non-empty list: the totals, the unweighted percentage from the
  ownership of the last record, and the effective percentage.\<close>

definition detection_metrics :: "InsiderTransaction list \<Rightarrow> py_error + DetectionMetrics" where
  "detection_metrics transactions =
     (case transactions_loop transactions 0 0 0 1.0 of
        (sold, bought, wsold, mult) \<Rightarrow>
          (let recent_ownership = shares_owned_after (last transactions)
           in case (if recent_ownership > 0
                    then (case int_truediv sold (recent_ownership + sold) of
                            Inl e \<Rightarrow> Inl e
                          | Inr q \<Rightarrow> Inr (q * 100))
                    else Inr 0) of
                Inl e \<Rightarrow> Inl e
              | Inr pct \<Rightarrow>
                  Inr \<lparr>total_sold = sold, total_bought = bought, weighted_sold = wsold,
                       role_multiplier = mult, percentage_sold = pct,
                       effective_percentage = pct * mult\<rparr>))"

subsection \<open>The confidence score (lines 281--328)\<close>

definition threshold_factor :: "real \<Rightarrow> real" where
  "threshold_factor ratio = min (ratio - 1.0) 1.0"

definition insider_factor :: "nat \<Rightarrow> real" where
  "insider_factor num_insiders = min (real num_insiders / 3.0) 1.0"

definition cluster_factor :: "bool \<Rightarrow> real" where
  "cluster_factor is_clustered = (if is_clustered then 1.0 else 0.5)"

definition role_factor :: "real \<Rightarrow> real" where
  "role_factor mult = min ((mult - 0.7) / 0.8) 1.0"

text \<open>The first operation of the source is the division \<^verbatim>\<open>percentage_sold / threshold\<close>.\<close>

definition calculate_confidence :: "real \<Rightarrow> real \<Rightarrow> nat \<Rightarrow> bool \<Rightarrow> real \<Rightarrow> py_error + real" where
  "calculate_confidence pct threshold num_insiders is_clustered mult =
     (case float_truediv pct threshold of
        Inl e \<Rightarrow> Inl e
      | Inr ratio \<Rightarrow>
          (let conf = threshold_factor ratio * 0.40
                    + insider_factor num_insiders * 0.30
                    + cluster_factor is_clustered * 0.15
                    + role_factor mult * 0.15
           in Inr (min conf 0.99)))"

subsection \<open>Time clustering (lines 238--243)\<close>

text \<open>The list comprehension over \<^verbatim>\<open>datetime.fromisoformat\<close> raises at the first string the
  library rejects.\<close>

definition parse_dates ::
  "(string \<Rightarrow> datetime option) \<Rightarrow> InsiderTransaction list \<Rightarrow> py_error + datetime list" where
  "parse_dates fromisoformat transactions =
     (case those (map (\<lambda>t. fromisoformat (transaction_date t)) transactions) of
        None \<Rightarrow> Inl ValueError
      | Some dates \<Rightarrow> Inr dates)"

text \<open>The builtins \<^verbatim>\<open>max\<close> and \<^verbatim>\<open>min\<close> on a list; the source calls them on two dates or
  more, never on an empty list.\<close>

fun py_max :: "'a::linorder list \<Rightarrow> 'a" where
  "py_max (d # ds) = foldl max d ds"

fun py_min :: "'a::linorder list \<Rightarrow> 'a" where
  "py_min (d # ds) = foldl min d ds"

text \<open>\<^verbatim>\<open>timedelta.days\<close>: the whole days of a difference of timestamps, rounded down
  (a day has 86400000000 microseconds).\<close>

definition timedelta_days :: "int \<Rightarrow> int" where
  "timedelta_days delta = delta div 86400000000"

text \<open>The pair \<^verbatim>\<open>(is_clustered, date_range_days)\<close>; \<^verbatim>\<open>date_range_days\<close> is bound only when
  there are two dates or more.\<close>

definition clustering :: "datetime list \<Rightarrow> bool \<times> int option" where
  "clustering dates =
     (if length dates > 1
      then (let date_range_days = timedelta_days (py_max dates - py_min dates)
            in (date_range_days \<le> 30, Some date_range_days))
      else (False, None))"

subsection \<open>The detector (lines 162--279)\<close>

definition detect_insider_selling_signal ::
  "(string \<Rightarrow> datetime option) \<Rightarrow> InsiderTransaction list \<Rightarrow> real
     \<Rightarrow> py_error + InsiderSignal option" where
  "detect_insider_selling_signal fromisoformat transactions threshold =
     (if transactions = [] then Inr None
      else
        case detection_metrics transactions of
          Inl e \<Rightarrow> Inl e
        | Inr m \<Rightarrow>
            if effective_percentage m \<ge> threshold
            then
              (let unique_insiders = length (remdups (map insider_name transactions))
               in case parse_dates fromisoformat transactions of
                    Inl e \<Rightarrow> Inl e
                  | Inr dates \<Rightarrow>
                      (case clustering dates of
                         (is_clustered, range_days) \<Rightarrow>
                           (case calculate_confidence (percentage_sold m) threshold
                                   unique_insiders is_clustered (role_multiplier m) of
                              Inl e \<Rightarrow> Inl e
                            | Inr conf \<Rightarrow>
                                Inr (Some
                                  \<lparr>signal_type = ''INSIDER_SELLING'',
                                   company_symbol = [],
                                   filing_type = ''Form 4'',
                                   confidence = conf,
                                   threshold_exceeded = True,
                                   threshold_value = percentage_sold m,
                                   details =
                                     \<lparr>total_shares_sold = total_sold m,
                                      total_shares_bought = total_bought m,
                                      percentage_sold_2dp = py_round2 (percentage_sold m),
                                      effective_percentage_2dp =
                                        py_round2 (effective_percentage m),
                                      threshold_given = threshold,
                                      num_transactions = length transactions,
                                      num_unique_insiders = unique_insiders,
                                      insiders = set (map insider_name transactions),
                                      roles = set (map title transactions),
                                      role_multiplier_2dp = py_round2 (role_multiplier m),
                                      time_clustered =
                                        (if length dates > 1 then Some is_clustered else None),
                                      date_range_days =
                                        (case range_days of Some d \<Rightarrow> d | None \<Rightarrow> 0)\<rparr>,
                                   filing_url = []\<rparr>))))
            else Inr None)"

subsection \<open>The role table as the specification words it\<close>

text \<open>
  The specification's \<^verbatim>\<open>weight_for\<close>: the maximum weight over all keys of the table that
  occur in the lower-cased title, and 1.0 when no key occurs. It is stated here from the
  specification, to be compared with \<^const>\<open>role_weight\<close>, which is the source's loop.
\<close>

definition matching_weights :: "string \<Rightarrow> real list" where
  "matching_weights ttl =
     map snd (filter (\<lambda>(role, w). str_in role (str_lower ttl)) ROLE_WEIGHTS)"

definition spec_weight_for :: "string \<Rightarrow> real" where
  "spec_weight_for ttl =
     (if matching_weights ttl = [] then 1.0 else py_max (matching_weights ttl))"

subsection \<open>Example inputs\<close>

text \<open>A sale record as the test suite builds them.\<close>

definition sale :: "string \<Rightarrow> string \<Rightarrow> string \<Rightarrow> int \<Rightarrow> int \<Rightarrow> InsiderTransaction" where
  "sale name ttl date sold owned =
     \<lparr>insider_name = name, title = ttl, transaction_date = date, shares_sold = sold,
      shares_bought = 0, shares_owned_after = owned, transaction_type = ''Sale''\<rparr>"

text \<open>The values of \<^verbatim>\<open>datetime.fromisoformat\<close> on the date strings of the examples, in
  microseconds since 2025-01-01T00:00:00; every other string stands for one the library
  rejects.\<close>

definition iso_2025 :: "string \<Rightarrow> datetime option" where
  "iso_2025 s =
     map_of
       [(''2025-01-15'', 14 * 86400000000),
        (''2025-01-16'', 15 * 86400000000),
        (''2025-01-20'', 19 * 86400000000),
        (''2025-02-14'', 44 * 86400000000),
        (''2025-02-14T23:59:59'', 44 * 86400000000 + 86399000000),
        (''2025-02-15'', 45 * 86400000000)] s"

text \<open>The fixture \<^verbatim>\<open>sample_transactions\<close> of the test suite.\<close>

definition sample_transactions :: "InsiderTransaction list" where
  "sample_transactions =
     [sale ''John Doe'' ''Chief Executive Officer'' ''2025-01-15'' 150000 200000,
      sale ''Jane Smith'' ''Chief Financial Officer'' ''2025-01-16'' 50000 100000]"

section \<open>Properties\<close>

subsection \<open>Strings and the weight loop\<close>

lemma startswith_iff: "startswith s p \<longleftrightarrow> (\<exists>r. s = p @ r)"
  by (induction s p rule: startswith.induct) auto

lemma str_in_iff: "str_in sub s \<longleftrightarrow> (\<exists>ps ss. s = ps @ sub @ ss)"
proof (induction s)
  case Nil
  show ?case by auto
next
  case (Cons c cs)
  show ?case
  proof
    assume "str_in sub (c # cs)"
    then consider "startswith (c # cs) sub" | "str_in sub cs" by auto
    then show "\<exists>ps ss. c # cs = ps @ sub @ ss"
    proof cases
      case 1
      then obtain r where "c # cs = sub @ r" by (auto simp: startswith_iff)
      then have "c # cs = [] @ sub @ r" by simp
      then show ?thesis by blast
    next
      case 2
      then obtain ps ss where "cs = ps @ sub @ ss" using Cons.IH by blast
      then have "c # cs = (c # ps) @ sub @ ss" by simp
      then show ?thesis by blast
    qed
  next
    assume "\<exists>ps ss. c # cs = ps @ sub @ ss"
    then obtain ps ss where eq: "c # cs = ps @ sub @ ss" by blast
    show "str_in sub (c # cs)"
    proof (cases ps)
      case Nil
      with eq have "startswith (c # cs) sub" unfolding startswith_iff by auto
      then show ?thesis by simp
    next
      case (Cons p ps')
      with eq have "cs = ps' @ sub @ ss" by simp
      then have "str_in sub cs" using Cons.IH by blast
      then show ?thesis by simp
    qed
  qed
qed

lemma Max_insert_max:
  "finite A \<Longrightarrow> Max (insert (max a b) A) = Max (insert (a::'a::linorder) (insert b A))"
  by (cases "A = {}") (simp_all add: max.assoc)


lemma weight_loop_ge: "weight \<le> weight_loop s weight items"
proof (induction items arbitrary: weight)
  case Nil
  show ?case by simp
next
  case (Cons kv items)
  obtain role w where kv: "kv = (role, w)" by (cases kv)
  have "weight \<le> (if str_in role s then max weight w else weight)" by simp
  also have "\<dots> \<le> weight_loop s (if str_in role s then max weight w else weight) items"
    by (rule Cons.IH)
  finally show ?case by (simp add: kv)
qed

lemma weight_loop_Max:
  "weight_loop s weight items =
     Max (insert weight {w. \<exists>role. (role, w) \<in> set items \<and> str_in role s})"
proof (induction items arbitrary: weight)
  case Nil
  show ?case by simp
next
  case (Cons kv items)
  obtain role w where kv: "kv = (role, w)" by (cases kv)
  let ?M = "{x. \<exists>r. (r, x) \<in> set items \<and> str_in r s}"
  have fin: "finite ?M"
  proof (rule finite_subset)
    show "?M \<subseteq> snd ` set items" by force
  qed simp
  show ?case
  proof (cases "str_in role s")
    case True
    have set_eq: "{x. \<exists>r. (r, x) \<in> set (kv # items) \<and> str_in r s} = insert w ?M"
      using True by (auto simp: kv)
    have "weight_loop s weight (kv # items) = Max (insert (max weight w) ?M)"
      using True by (simp add: kv Cons.IH)
    also have "\<dots> = Max (insert weight (insert w ?M))"
      using fin by (rule Max_insert_max)
    finally show ?thesis by (simp only: set_eq)
  next
    case False
    have set_eq: "{x. \<exists>r. (r, x) \<in> set (kv # items) \<and> str_in r s} = ?M"
      using False by (auto simp: kv)
    show ?thesis using False by (simp only: set_eq) (simp add: kv Cons.IH)
  qed
qed

lemma weight_loop_le:
  "weight \<le> b \<Longrightarrow> \<forall>(role, w) \<in> set items. w \<le> b \<Longrightarrow> weight_loop s weight items \<le> b"
  by (induction items arbitrary: weight) auto

lemma role_weight_ge_1: "1 \<le> role_weight ttl"
  using weight_loop_ge [of "1.0" "str_lower ttl" ROLE_WEIGHTS] by (simp add: role_weight_def)

lemma role_weight_le: "role_weight ttl \<le> 3 / 2"
  unfolding role_weight_def
  by (rule weight_loop_le) (simp_all add: ROLE_WEIGHTS_def)

lemma foldl_max_Max: "foldl max (m::'a::linorder) xs = Max (insert m (set xs))"
proof (induction xs arbitrary: m)
  case Nil
  show ?case by simp
next
  case (Cons x xs)
  have "foldl max m (x # xs) = Max (insert (max m x) (set xs))" by (simp add: Cons.IH)
  also have "\<dots> = Max (insert m (insert x (set xs)))" by (simp add: Max_insert_max)
  finally show ?case by simp
qed


lemma transactions_loop_eq:
  "transactions_loop ts sold bought wsold mult =
     (sold + sum_list (map shares_sold ts),
      bought + sum_list (map shares_bought ts),
      wsold + (\<Sum>t\<leftarrow>ts. real_of_int (shares_sold t) * role_weight (title t)),
      foldl max mult (map (\<lambda>t. role_weight (title t)) ts))"
  by (induction ts arbitrary: sold bought wsold mult) (simp_all add: Let_def algebra_simps)

lemma py_max_Max: "ds \<noteq> [] \<Longrightarrow> py_max ds = Max (set ds)"
  by (cases ds) (simp_all add: foldl_max_Max)


lemma set_matching_weights:
  "set (matching_weights ttl) = {w. \<exists>role. (role, w) \<in> set ROLE_WEIGHTS \<and> str_in role (str_lower ttl)}"
  by (force simp: matching_weights_def)

lemma role_weight_Max:
  "role_weight ttl = Max (insert 1 (set (matching_weights ttl)))"
  by (simp add: role_weight_def weight_loop_Max set_matching_weights)

lemma role_weight_spec: "role_weight ttl = max 1 (spec_weight_for ttl)"
proof (cases "matching_weights ttl = []")
  case True
  then show ?thesis by (simp add: role_weight_Max spec_weight_for_def)
next
  case False
  then have "set (matching_weights ttl) \<noteq> {}" by simp
  then have "Max (insert 1 (set (matching_weights ttl))) = max 1 (Max (set (matching_weights ttl)))"
    by simp
  then show ?thesis using False by (simp add: role_weight_Max spec_weight_for_def py_max_Max)
qed

lemmas role_eval = role_weight_def str_lower_def ROLE_WEIGHTS_def matching_weights_def spec_weight_for_def

subsection \<open>The metrics\<close>

lemma role_multiplier_loop:
  "foldl max (1::real) (map (\<lambda>t. role_weight (title t)) ts)
     = Max (insert 1 ((\<lambda>t. role_weight (title t)) ` set ts))"
  by (simp add: foldl_max_Max)

lemma detection_metrics_cases:
  assumes "detection_metrics ts = Inr m"
  shows "total_sold m = sum_list (map shares_sold ts)"
    and "total_bought m = sum_list (map shares_bought ts)"
    and "role_multiplier m = Max (insert 1 ((\<lambda>t. role_weight (title t)) ` set ts))"
    and "percentage_sold m =
           (if 0 < shares_owned_after (last ts)
            then real_of_int (sum_list (map shares_sold ts))
                 / real_of_int (shares_owned_after (last ts) + sum_list (map shares_sold ts)) * 100
            else 0)"
    and "effective_percentage m = percentage_sold m * role_multiplier m"
  using assms
  by (auto simp: detection_metrics_def transactions_loop_eq role_multiplier_loop Let_def
      int_truediv_def split: if_splits)

lemma detection_metrics_returns:
  assumes "0 < shares_owned_after (last ts) \<longrightarrow>
             shares_owned_after (last ts) + sum_list (map shares_sold ts) \<noteq> 0"
  shows "\<exists>m. detection_metrics ts = Inr m"
  using assms
  by (simp add: detection_metrics_def transactions_loop_eq Let_def int_truediv_def)

lemma sum_sold_nonneg: "\<forall>t\<in>set ts. 0 \<le> shares_sold t \<Longrightarrow> 0 \<le> sum_list (map shares_sold ts)"
  by (induction ts) simp_all

lemma role_multiplier_ge_1:
  assumes "detection_metrics ts = Inr m" shows "1 \<le> role_multiplier m"
  by (simp add: detection_metrics_cases(3) [OF assms])

lemma role_multiplier_le:
  assumes "detection_metrics ts = Inr m" shows "role_multiplier m \<le> 3 / 2"
proof -
  have "role_weight (title t) \<le> 3 / 2" for t by (rule role_weight_le)
  then have "\<forall>a\<in>insert 1 ((\<lambda>t. role_weight (title t)) ` set ts). a \<le> 3 / 2" by auto
  then have "Max (insert 1 ((\<lambda>t. role_weight (title t)) ` set ts)) \<le> 3 / 2"
    by (subst Max_le_iff) simp_all
  then show ?thesis by (simp only: detection_metrics_cases(3) [OF assms])
qed

lemma percentage_sold_nonneg:
  assumes "detection_metrics ts = Inr m" and "\<forall>t\<in>set ts. 0 \<le> shares_sold t"
  shows "0 \<le> percentage_sold m"
  using sum_sold_nonneg [OF assms(2)]
  by (simp add: detection_metrics_cases(4) [OF assms(1)])


lemmas metrics_eval = detection_metrics_def int_truediv_def sale_def Let_def


subsection \<open>The detector, case by case\<close>

lemma detect_empty: "detect_insider_selling_signal F [] thr = Inr None"
  by (simp add: detect_insider_selling_signal_def)

lemma detect_Some:
  assumes "detect_insider_selling_signal F ts thr = Inr (Some s)"
  obtains m dates conf where
    "ts \<noteq> []"
    "detection_metrics ts = Inr m"
    "thr \<le> effective_percentage m"
    "parse_dates F ts = Inr dates"
    "calculate_confidence (percentage_sold m) thr (length (remdups (map insider_name ts)))
       (fst (clustering dates)) (role_multiplier m) = Inr conf"
    "confidence s = conf"
    "threshold_value s = percentage_sold m"
    "time_clustered (details s) = (if 1 < length dates then Some (fst (clustering dates)) else None)"
    "date_range_days (details s) = (case snd (clustering dates) of Some d \<Rightarrow> d | None \<Rightarrow> 0)"
proof -
  from assms have ne: "ts \<noteq> []"
    by (auto simp: detect_insider_selling_signal_def)
  from assms ne obtain m where m: "detection_metrics ts = Inr m"
    by (cases "detection_metrics ts") (auto simp: detect_insider_selling_signal_def)
  from assms ne m have fire: "thr \<le> effective_percentage m"
    by (auto simp: detect_insider_selling_signal_def split: if_splits)
  from assms ne m fire obtain dates where d: "parse_dates F ts = Inr dates"
    by (cases "parse_dates F ts") (auto simp: detect_insider_selling_signal_def Let_def)
  obtain c r where cl: "clustering dates = (c, r)" by (cases "clustering dates")
  from assms ne m fire d cl obtain conf where
    conf: "calculate_confidence (percentage_sold m) thr (length (remdups (map insider_name ts)))
             c (role_multiplier m) = Inr conf"
    by (cases "calculate_confidence (percentage_sold m) thr
                 (length (remdups (map insider_name ts))) c (role_multiplier m)")
       (auto simp: detect_insider_selling_signal_def Let_def)
  from assms ne m fire d cl conf have
    "confidence s = conf" "threshold_value s = percentage_sold m"
    "time_clustered (details s) = (if 1 < length dates then Some c else None)"
    "date_range_days (details s) = (case r of Some d \<Rightarrow> d | None \<Rightarrow> 0)"
    by (auto simp: detect_insider_selling_signal_def Let_def)
  with ne m fire d conf cl show thesis
    by (intro that [of m dates conf]) simp_all
qed

lemma detect_fires:
  assumes "ts \<noteq> []" "detection_metrics ts = Inr m" "thr \<le> effective_percentage m"
    "parse_dates F ts = Inr dates"
    "calculate_confidence (percentage_sold m) thr (length (remdups (map insider_name ts)))
       (fst (clustering dates)) (role_multiplier m) = Inr conf"
  shows "\<exists>s. detect_insider_selling_signal F ts thr = Inr (Some s)"
  using assms
  by (cases "clustering dates") (simp add: detect_insider_selling_signal_def Let_def)

lemma detect_below:
  assumes "ts \<noteq> []" "detection_metrics ts = Inr m" "\<not> thr \<le> effective_percentage m"
  shows "detect_insider_selling_signal F ts thr = Inr None"
  using assms by (simp add: detect_insider_selling_signal_def)

lemma calculate_confidence_returns:
  "thr \<noteq> 0 \<Longrightarrow> \<exists>conf. calculate_confidence pct thr n c mult = Inr conf"
  by (simp add: calculate_confidence_def float_truediv_def Let_def)

lemma calculate_confidence_zero:
  "calculate_confidence pct 0 n c mult = Inl ZeroDivisionError"
  by (simp add: calculate_confidence_def float_truediv_def)

lemma those_map_Some:
  "\<forall>x\<in>set xs. f x \<noteq> None \<Longrightarrow> those (map f xs) = Some (map (\<lambda>x. the (f x)) xs)"
  by (induction xs) auto

lemma parse_dates_returns:
  "\<forall>t\<in>set ts. F (transaction_date t) \<noteq> None \<Longrightarrow>
     parse_dates F ts = Inr (map (\<lambda>t. the (F (transaction_date t))) ts)"
  by (simp add: parse_dates_def those_map_Some)


lemmas detect_eval =
  detect_insider_selling_signal_def parse_dates_def clustering_def timedelta_days_def
  calculate_confidence_def float_truediv_def threshold_factor_def insider_factor_def
  cluster_factor_def role_factor_def iso_2025_def

lemma sample_detect:
  "map_sum id (map_option (\<lambda>s. (confidence s, threshold_value s, time_clustered (details s))))
     (detect_insider_selling_signal iso_2025 sample_transactions 40)
   = Inr (Some (23 / 30, 200 / 3, Some True))"
  by (simp add: sample_transactions_def detect_eval metrics_eval role_eval)

subsection \<open>Role weights are floored at one\<close>

text \<open>
  Claim C10. The weight the loop resolves for a record is at least 1.0, and so is the
  aggregate \<^verbatim>\<open>role_multiplier\<close>: both start at 1.0 and only ever grow by \<^verbatim>\<open>max\<close>, so the
  table entries 0.9, 0.8 and 0.7 never lower them. Consequently, on records whose share
  counts are non-negative (the data model's invariant), the metrics are computed without
  an exception and \<^verbatim>\<open>effective_percentage\<close> is at least \<^verbatim>\<open>percentage_sold\<close>.
\<close>

theorem role_weights_never_below_one:
  "1 \<le> role_weight ttl
   \<and> (\<forall>m. detection_metrics ts = Inr m \<longrightarrow> 1 \<le> role_multiplier m)
   \<and> ((\<forall>t\<in>set ts. 0 \<le> shares_sold t) \<longrightarrow>
        (\<exists>m. detection_metrics ts = Inr m \<and> percentage_sold m \<le> effective_percentage m))"
proof (intro conjI allI impI)
  show "1 \<le> role_weight ttl" by (rule role_weight_ge_1)
next
  fix m assume "detection_metrics ts = Inr m"
  then show "1 \<le> role_multiplier m" by (rule role_multiplier_ge_1)
next
  assume wf: "\<forall>t\<in>set ts. 0 \<le> shares_sold t"
  have "0 \<le> sum_list (map shares_sold ts)" by (rule sum_sold_nonneg [OF wf])
  then have "0 < shares_owned_after (last ts) \<longrightarrow>
      shares_owned_after (last ts) + sum_list (map shares_sold ts) \<noteq> 0" by simp
  then obtain m where m: "detection_metrics ts = Inr m"
    using detection_metrics_returns by blast
  have "percentage_sold m * 1 \<le> percentage_sold m * role_multiplier m"
    by (rule mult_left_mono [OF role_multiplier_ge_1 [OF m] percentage_sold_nonneg [OF m wf]])
  then have "percentage_sold m \<le> effective_percentage m"
    by (simp add: detection_metrics_cases(5) [OF m])
  with m show "\<exists>m. detection_metrics ts = Inr m \<and> percentage_sold m \<le> effective_percentage m"
    by blast
qed


theorem role_weights_never_below_one_witness:
  "role_weight ''10% Owner'' = 1
   \<and> 0 \<le> shares_sold (sale ''A'' ''10% Owner'' ''2025-01-15'' 100 100)
   \<and> (\<exists>m. detection_metrics [sale ''A'' ''10% Owner'' ''2025-01-15'' 100 100] = Inr m
        \<and> role_multiplier m = 1 \<and> percentage_sold m = 50 \<and> effective_percentage m = 50
        \<and> percentage_sold m \<le> effective_percentage m)"
  using role_weights_never_below_one [of "''10% Owner''" "[sale ''A'' ''10% Owner'' ''2025-01-15'' 100 100]"]
  by (simp add: metrics_eval role_eval)

subsection \<open>The reported value is the unweighted percentage\<close>

text \<open>
  Claim C5. Whenever the detector returns a signal, its \<^verbatim>\<open>threshold_value\<close> is the unweighted
  \<^verbatim>\<open>percentage_sold\<close>: the sum of all \<^verbatim>\<open>shares_sold\<close> divided by the last record's
  \<^verbatim>\<open>shares_owned_after\<close> plus that sum, times 100, and 0 when the last record's ownership is
  not positive. The firing test was made on \<^verbatim>\<open>effective_percentage\<close>, the same value times
  the role multiplier, which is not what is reported.
\<close>

theorem threshold_value_is_unweighted_percentage:
  assumes "detect_insider_selling_signal F ts thr = Inr (Some s)"
  shows "threshold_value s =
           (if 0 < shares_owned_after (last ts)
            then real_of_int (sum_list (map shares_sold ts))
                 / real_of_int (shares_owned_after (last ts) + sum_list (map shares_sold ts)) * 100
            else 0)
         \<and> (\<exists>m. detection_metrics ts = Inr m \<and> threshold_value s = percentage_sold m
                \<and> thr \<le> effective_percentage m
                \<and> effective_percentage m = percentage_sold m * role_multiplier m)"
proof -
  from assms obtain m where m: "detection_metrics ts = Inr m"
    and fire: "thr \<le> effective_percentage m"
    and tv: "threshold_value s = percentage_sold m"
    by (rule detect_Some)
  from tv have "threshold_value s =
           (if 0 < shares_owned_after (last ts)
            then real_of_int (sum_list (map shares_sold ts))
                 / real_of_int (shares_owned_after (last ts) + sum_list (map shares_sold ts)) * 100
            else 0)"
    by (simp only: detection_metrics_cases(4) [OF m])
  moreover have "effective_percentage m = percentage_sold m * role_multiplier m"
    by (rule detection_metrics_cases(5) [OF m])
  ultimately show ?thesis using m fire tv by blast
qed

lemma sample_fires:
  "\<exists>s. detect_insider_selling_signal iso_2025 sample_transactions 40 = Inr (Some s)"
proof -
  have "map_sum id (map_option (\<lambda>s. (confidence s, threshold_value s, time_clustered (details s))))
     (detect_insider_selling_signal iso_2025 sample_transactions 40)
   = Inr (Some (23 / 30, 200 / 3, Some True))" by (rule sample_detect)
  then show ?thesis
    by (cases "detect_insider_selling_signal iso_2025 sample_transactions 40") auto
qed

lemma sample_metrics:
  "map_sum id (\<lambda>m. (percentage_sold m, role_multiplier m, effective_percentage m))
     (detection_metrics sample_transactions) = Inr (200 / 3, 3 / 2, 100)"
  by (simp add: sample_transactions_def metrics_eval role_eval)

theorem threshold_value_is_unweighted_percentage_witness:
  "\<exists>s m. detect_insider_selling_signal iso_2025 sample_transactions 40 = Inr (Some s)
       \<and> detection_metrics sample_transactions = Inr m
       \<and> threshold_value s = 200 / 3 \<and> effective_percentage m = 100"
proof -
  obtain s where s: "detect_insider_selling_signal iso_2025 sample_transactions 40 = Inr (Some s)"
    using sample_fires by blast
  from threshold_value_is_unweighted_percentage [OF s]
  obtain m where m: "detection_metrics sample_transactions = Inr m"
    and tv: "threshold_value s = percentage_sold m" by blast
  from sample_metrics m have "percentage_sold m = 200 / 3" "effective_percentage m = 100"
    by simp_all
  with s m tv show ?thesis by auto
qed

subsection \<open>Bounds of the confidence\<close>

text \<open>The four factors under the firing condition, for a positive threshold.\<close>

lemma confidence_positive:
  assumes thr: "0 < thr" and fire: "thr \<le> pct * mult" and m1: "1 \<le> mult" and m2: "mult \<le> 3 / 2"
    and n: "1 \<le> n"
    and c: "calculate_confidence pct thr n clustered mult = Inr conf"
  shows "0 < conf" and "conf \<le> 99 / 100"
proof -
  let ?raw = "threshold_factor (pct / thr) * 0.40 + insider_factor n * 0.30
              + cluster_factor clustered * 0.15 + role_factor mult * 0.15"
  from thr c have conf: "conf = min ?raw 0.99"
    by (simp add: calculate_confidence_def float_truediv_def Let_def)
  have "min ?raw 0.99 \<le> (0.99::real)" by (rule min.cobounded2)
  then show "conf \<le> 99 / 100" unfolding conf by simp
  have "thr / mult \<le> pct" using fire m1 by (simp add: field_simps)
  moreover have "thr * (2 / 3) \<le> thr / mult"
    using thr m1 m2 by (simp add: field_simps)
  ultimately have "thr * (2 / 3) \<le> pct" by linarith
  then have ratio: "2 / 3 \<le> pct / thr" using thr by (simp add: field_simps)
  have "- (1 / 3) \<le> threshold_factor r" if "2 / 3 \<le> r" for r :: real
    using that unfolding threshold_factor_def by linarith
  from this [OF ratio] have tf: "- (1 / 3) \<le> threshold_factor (pct / thr)" .
  have "1 \<le> real n" using n by simp
  then have inf: "1 / 3 \<le> insider_factor n" by (simp add: insider_factor_def)
  have cf: "1 / 2 \<le> cluster_factor clustered" by (simp add: cluster_factor_def)
  have rf: "3 / 8 \<le> role_factor mult" using m1 by (simp add: role_factor_def)
  from tf inf cf rf have "0 < ?raw" by simp
  then show "0 < conf" by (simp add: conf)
qed

lemma unique_insiders_pos: "ts \<noteq> [] \<Longrightarrow> 1 \<le> length (remdups (map insider_name ts))"
  by (cases "remdups (map insider_name ts)") simp_all

text \<open>Where the bound holds: whenever a signal is returned for a threshold that is not
  negative, the confidence is strictly positive and at most 0.99.\<close>

lemma confidence_bounds_nonneg_threshold:
  assumes "detect_insider_selling_signal F ts thr = Inr (Some s)" and "0 \<le> thr"
  shows "0 < confidence s \<and> confidence s \<le> 0.99"
proof -
  from assms(1) obtain m dates conf where ne: "ts \<noteq> []"
    and m: "detection_metrics ts = Inr m"
    and fire: "thr \<le> effective_percentage m"
    and c: "calculate_confidence (percentage_sold m) thr (length (remdups (map insider_name ts)))
       (fst (clustering dates)) (role_multiplier m) = Inr conf"
    and cs: "confidence s = conf"
    by (rule detect_Some)
  have "thr \<noteq> 0" using c by (auto simp: calculate_confidence_zero)
  with assms(2) have pos: "0 < thr" by simp
  have fire': "thr \<le> percentage_sold m * role_multiplier m"
    using fire by (simp only: detection_metrics_cases(5) [OF m])
  have "0 < conf" "conf \<le> 99 / 100"
    using confidence_positive [OF pos fire' role_multiplier_ge_1 [OF m] role_multiplier_le [OF m]
        unique_insiders_pos [OF ne] c] by simp_all
  then show ?thesis by (simp add: cs)
qed

text \<open>
  Claim C3. The claim fails on the code for a negative threshold, by the same missing
  clamp as in claims C2 and C6. One Director selling 100 shares and keeping 100 has the
  percentage 50 and the effective percentage 60; at threshold -1 the input fires, the
  threshold-distance factor is 50 / (-1) - 1 = -51, and the signal that is returned
  carries the confidence -20.13125, where the claim and the docstring of the scorer
  (a score from 0.0 to 1.0) say a value above 0.
\<close>

theorem confidence_negative_at_negative_threshold:
  "map_sum id (\<lambda>m. (percentage_sold m, effective_percentage m))
     (detection_metrics [sale ''John Doe'' ''Director'' ''2025-01-15'' 100 100]) = Inr (50, 60)
   \<and> threshold_factor (50 / (- 1)) = - 51
   \<and> map_sum id (map_option confidence)
        (detect_insider_selling_signal iso_2025
           [sale ''John Doe'' ''Director'' ''2025-01-15'' 100 100] (- 1))
      = Inr (Some (- (3221 / 160)))
   \<and> - (3221 / 160) < (0::real)"
  by (simp add: detect_eval metrics_eval role_eval)

subsection \<open>The firing rule\<close>

text \<open>
  Claim C4. On the empty list the detector returns \<open>None\<close> for every threshold (lemma
  \<open>detect_empty\<close>), and a non-empty list whose effective percentage is below the
  threshold gives \<open>None\<close> (lemma \<open>detect_below\<close>). The claim fails on the code at threshold
  0, by the unguarded division of claim C2: one Director selling 100 shares and keeping
  100 has the effective percentage 60, which reaches the threshold 0, and the call raises
  \<^verbatim>\<open>ZeroDivisionError\<close> where the claim says it returns a signal.
\<close>

theorem zero_threshold_fires_and_raises:
  "map_sum id effective_percentage
     (detection_metrics [sale ''John Doe'' ''Director'' ''2025-01-15'' 100 100]) = Inr 60
   \<and> (0::real) \<le> 60
   \<and> detect_insider_selling_signal iso_2025
        [sale ''John Doe'' ''Director'' ''2025-01-15'' 100 100] 0 = Inl ZeroDivisionError"
  by (simp add: detect_eval metrics_eval role_eval)

subsection \<open>The clustering window\<close>








text \<open>A time of day does not count: 30 days, 23 hours, 59 minutes and 59 seconds apart is
  a span of 30 whole days, and the records are clustered.\<close>

lemma span_counts_whole_days:
  "map_sum id (map_option (\<lambda>s. (time_clustered (details s), date_range_days (details s))))
     (detect_insider_selling_signal iso_2025
        [sale ''Person A'' ''CFO'' ''2025-01-15'' 50000 100000,
         sale ''Person B'' ''COO'' ''2025-02-14T23:59:59'' 50000 100000] 30)
   = Inr (Some (Some True, 30))"
  by (simp add: detect_eval metrics_eval role_eval)


subsection \<open>Monotonicity in the role weight\<close>

text \<open>Where the floor does not interfere: of two single-record inputs that differ in the
  title only, with a positive percentage, the one whose title carries the strictly higher
  table weight has the strictly greater effective percentage, as long as that weight is
  above 1.0.\<close>

lemma effective_percentage_monotone:
  assumes "detection_metrics [t] = Inr m1"
    and "detection_metrics [t\<lparr>title := ttl'\<rparr>] = Inr m2"
    and "0 < percentage_sold m1"
    and "spec_weight_for (title t) < spec_weight_for ttl'"
    and "1 < spec_weight_for ttl'"
  shows "percentage_sold m2 = percentage_sold m1
         \<and> effective_percentage m1 < effective_percentage m2"
proof -
  have p: "percentage_sold m2 = percentage_sold m1"
    by (simp add: detection_metrics_cases(4) [OF assms(1)] detection_metrics_cases(4) [OF assms(2)])
  have r1: "role_multiplier m1 = role_weight (title t)"
    using role_weight_ge_1 [of "title t"]
    by (simp add: detection_metrics_cases(3) [OF assms(1)])
  have r2: "role_multiplier m2 = role_weight ttl'"
    using role_weight_ge_1 [of ttl']
    by (simp add: detection_metrics_cases(3) [OF assms(2)])
  have "role_weight (title t) < role_weight ttl'"
    using assms(4,5) by (simp add: role_weight_spec)
  then have "percentage_sold m1 * role_multiplier m1 < percentage_sold m1 * role_multiplier m2"
    using assms(3) by (simp add: r1 r2)
  then have "effective_percentage m1 < effective_percentage m2"
    by (simp add: detection_metrics_cases(5) [OF assms(1)]
        detection_metrics_cases(5) [OF assms(2)] p)
  with p show ?thesis by simp
qed

text \<open>
  Claim C7. The claim fails on the code for the table weights below 1.0, by the same
  floor as in claim C1. Two single-record inputs that differ in the title only, Insider
  (table weight 0.8) and Officer (table weight 0.9), both with the percentage 50: the
  claim says the Officer input has the strictly greater effective percentage, and the
  code gives 50 for both, since both titles resolve to 1.0.
\<close>

theorem sub_unit_titles_same_effective_percentage:
  "spec_weight_for ''Insider'' = 8 / 10 \<and> spec_weight_for ''Officer'' = 9 / 10
   \<and> map_sum id (\<lambda>m. (percentage_sold m, effective_percentage m))
       (detection_metrics [sale ''A'' ''Insider'' ''2025-01-15'' 100 100]) = Inr (50, 50)
   \<and> map_sum id (\<lambda>m. (percentage_sold m, effective_percentage m))
       (detection_metrics [sale ''A'' ''Officer'' ''2025-01-15'' 100 100]) = Inr (50, 50)"
  by (simp add: metrics_eval role_eval)

subsection \<open>The scenario of the test fixture\<close>

text \<open>The raw score stays below the cap when the percentage is at most 5/3 of the
  threshold and at most two insiders sell.\<close>

lemma confidence_below_cap:
  assumes thr: "0 < thr" and r: "pct / thr - 1 \<le> 2 / 3" and n: "n \<le> 2"
    and c: "calculate_confidence pct thr n clustered mult = Inr conf"
  shows "conf < 99 / 100"
proof -
  let ?raw = "threshold_factor (pct / thr) * 0.40 + insider_factor n * 0.30
              + cluster_factor clustered * 0.15 + role_factor mult * 0.15"
  from thr c have conf: "conf = min ?raw 0.99"
    by (simp add: calculate_confidence_def float_truediv_def Let_def)
  have "threshold_factor x \<le> 2 / 3" if "x - 1 \<le> 2 / 3" for x :: real
    using that unfolding threshold_factor_def by linarith
  from this [OF r] have tf: "threshold_factor (pct / thr) \<le> 2 / 3" .
  have "real n \<le> 2" using n by simp
  then have inf: "insider_factor n \<le> 2 / 3" by (simp add: insider_factor_def)
  have cf: "cluster_factor clustered \<le> 1" by (simp add: cluster_factor_def)
  have rf: "role_factor mult \<le> 1" by (simp add: role_factor_def)
  from tf inf cf rf have "?raw < 99 / 100" by simp
  then show ?thesis by (simp add: conf)
qed

text \<open>
  Claim C9, amended. For every two-record input whose first record sells 150,000 shares
  and keeps 200,000 and whose second record sells 50,000 and keeps 100,000, whatever the
  names, the titles and the (parseable) dates, the detector fires at threshold 40; the
  reported \<^verbatim>\<open>threshold_value\<close> is 200000 / (100000 + 200000) * 100, that is 200/3, about
  66.67, and the confidence is strictly between 0 and 0.99.
\<close>

theorem ceo_cfo_scenario:
  assumes "shares_sold t1 = 150000" and "shares_owned_after t1 = 200000"
    and "shares_sold t2 = 50000" and "shares_owned_after t2 = 100000"
    and "F (transaction_date t1) \<noteq> None" and "F (transaction_date t2) \<noteq> None"
  shows "\<exists>s. detect_insider_selling_signal F [t1, t2] 40 = Inr (Some s)
           \<and> threshold_value s = 200 / 3
           \<and> \<bar>threshold_value s - 66.67\<bar> < 0.01
           \<and> 0 < confidence s \<and> confidence s < 0.99"
proof -
  let ?ts = "[t1, t2]"
  have "\<exists>m. detection_metrics ?ts = Inr m"
    by (rule detection_metrics_returns) (simp add: assms)
  then obtain m where m: "detection_metrics ?ts = Inr m" by blast
  have p: "percentage_sold m = 200 / 3"
    by (simp add: detection_metrics_cases(4) [OF m] assms)
  have m1: "1 \<le> role_multiplier m" by (rule role_multiplier_ge_1 [OF m])
  have m2: "role_multiplier m \<le> 3 / 2" by (rule role_multiplier_le [OF m])
  have "200 / 3 * 1 \<le> 200 / 3 * role_multiplier m"
    using m1 by (intro mult_left_mono) simp_all
  then have fire': "40 \<le> percentage_sold m * role_multiplier m" by (simp add: p)
  then have fire: "40 \<le> effective_percentage m"
    by (simp only: detection_metrics_cases(5) [OF m])
  have iso: "\<forall>t\<in>set ?ts. F (transaction_date t) \<noteq> None" using assms(5,6) by simp
  let ?dates = "map (\<lambda>t. the (F (transaction_date t))) ?ts"
  let ?n = "length (remdups (map insider_name ?ts))"
  obtain conf where c: "calculate_confidence (percentage_sold m) 40 ?n
      (fst (clustering ?dates)) (role_multiplier m) = Inr conf"
    using calculate_confidence_returns [of 40] by (metis zero_neq_numeral)
  have "\<exists>s. detect_insider_selling_signal F ?ts 40 = Inr (Some s)"
    by (rule detect_fires [OF _ m fire parse_dates_returns [OF iso] c]) simp
  then obtain s where s: "detect_insider_selling_signal F ?ts 40 = Inr (Some s)" by blast
  from s obtain m' dates' conf' where m': "detection_metrics ?ts = Inr m'"
    and d': "parse_dates F ?ts = Inr dates'"
    and c': "calculate_confidence (percentage_sold m') 40 ?n
       (fst (clustering dates')) (role_multiplier m') = Inr conf'"
    and cs: "confidence s = conf'"
    and tv: "threshold_value s = percentage_sold m'"
    by (rule detect_Some)
  from m m' have mm: "m' = m" by simp
  have n1: "1 \<le> ?n" by (rule unique_insiders_pos) simp
  have n2: "?n \<le> 2" by simp
  have pos: "0 < conf'"
    using confidence_positive(1) [OF _ fire' m1 m2 n1 c' [unfolded mm]] by simp
  have cap: "conf' < 99 / 100"
    using confidence_below_cap [OF _ _ n2 c' [unfolded mm]] by (simp add: p)
  from s tv pos cap show ?thesis by (auto simp: mm p cs)
qed

theorem ceo_cfo_scenario_witness:
  "\<exists>s. detect_insider_selling_signal iso_2025 sample_transactions 40 = Inr (Some s)
      \<and> threshold_value s = 200 / 3 \<and> confidence s = 23 / 30
      \<and> 0 < confidence s \<and> confidence s < 0.99"
proof -
  obtain s where s: "detect_insider_selling_signal iso_2025 sample_transactions 40 = Inr (Some s)"
    and v: "confidence s = 23 / 30"
    using sample_detect
    by (cases "detect_insider_selling_signal iso_2025 sample_transactions 40") auto
  have "\<exists>s. detect_insider_selling_signal iso_2025
      [sale ''John Doe'' ''Chief Executive Officer'' ''2025-01-15'' 150000 200000,
       sale ''Jane Smith'' ''Chief Financial Officer'' ''2025-01-16'' 50000 100000] 40
        = Inr (Some s)
      \<and> threshold_value s = 200 / 3 \<and> \<bar>threshold_value s - 66.67\<bar> < 0.01
      \<and> 0 < confidence s \<and> confidence s < 0.99"
    by (rule ceo_cfo_scenario) (simp_all add: sale_def iso_2025_def)
  with s v show ?thesis by (auto simp: sample_transactions_def)
qed

text \<open>
  Claim C9 as stated fails: the reported value is 200/3, more than 17 away from 48.98.
\<close>

theorem fixture_scenario_counterexample:
  "map_sum id (map_option threshold_value)
     (detect_insider_selling_signal iso_2025 sample_transactions 40) = Inr (Some (200 / 3))
   \<and> 17 < \<bar>200 / 3 - 48.98 :: real\<bar>"
  by (simp add: sample_transactions_def detect_eval metrics_eval role_eval)

subsection \<open>Table weights below one\<close>

text \<open>
  Claim C1. The claim holds for every title whose greatest matching table weight is at
  least 1.0 (lemma \<open>role_weight_spec\<close>: the resolved weight is the greater of 1.0 and the
  specification's \<^verbatim>\<open>weight_for\<close>). It fails on the code for the three entries below 1.0:
  the running weight starts at 1.0 and is combined by \<^verbatim>\<open>max\<close>, so a title whose only
  matching key is \<^verbatim>\<open>10% owner\<close> resolves to 1.0 and not to 0.7, and one whose only matching
  key is \<^verbatim>\<open>insider\<close> resolves to 1.0 and not to 0.8.
\<close>

theorem table_weights_below_one_unreachable:
  "filter (\<lambda>(role, w). str_in role (str_lower ''10% Owner'')) ROLE_WEIGHTS
     = [(''10% owner'', 7 / 10)]
   \<and> spec_weight_for ''10% Owner'' = 7 / 10 \<and> role_weight ''10% Owner'' = 1
   \<and> filter (\<lambda>(role, w). str_in role (str_lower ''Insider'')) ROLE_WEIGHTS
     = [(''insider'', 8 / 10)]
   \<and> spec_weight_for ''Insider'' = 8 / 10 \<and> role_weight ''Insider'' = 1"
  by (simp add: role_eval)

subsection \<open>Degenerate thresholds\<close>

text \<open>At threshold 0 every well-formed non-empty input raises.\<close>

lemma zero_threshold_always_raises:
  assumes "ts \<noteq> []" and "\<forall>t\<in>set ts. 0 \<le> shares_sold t"
    and "\<forall>t\<in>set ts. F (transaction_date t) \<noteq> None"
  shows "detect_insider_selling_signal F ts 0 = Inl ZeroDivisionError"
proof -
  have "0 \<le> sum_list (map shares_sold ts)" by (rule sum_sold_nonneg [OF assms(2)])
  then have "0 < shares_owned_after (last ts) \<longrightarrow>
      shares_owned_after (last ts) + sum_list (map shares_sold ts) \<noteq> 0" by simp
  then obtain m where m: "detection_metrics ts = Inr m"
    using detection_metrics_returns by blast
  have "0 \<le> percentage_sold m * role_multiplier m"
    using percentage_sold_nonneg [OF m assms(2)] role_multiplier_ge_1 [OF m] by simp
  then have fire: "0 \<le> effective_percentage m"
    by (simp add: detection_metrics_cases(5) [OF m])
  show ?thesis
    using assms(1) m fire parse_dates_returns [OF assms(3)]
    by (cases "clustering (map (\<lambda>t. the (F (transaction_date t))) ts)")
       (simp add: detect_insider_selling_signal_def Let_def calculate_confidence_zero)
qed

text \<open>
  Claim C2. The claim fails on the code. For the fixture, which fires at every threshold
  up to 100: at threshold 0 the call raises \<^verbatim>\<open>ZeroDivisionError\<close>; at threshold -40 it
  returns a signal whose threshold-distance factor is -8/3, not 1.0, and whose confidence
  is -17/30.
\<close>

theorem degenerate_threshold_unguarded:
  "detect_insider_selling_signal iso_2025 sample_transactions 0 = Inl ZeroDivisionError
   \<and> map_sum id (map_option (\<lambda>s. (threshold_value s, confidence s)))
        (detect_insider_selling_signal iso_2025 sample_transactions (- 40))
      = Inr (Some (200 / 3, - (17 / 30)))
   \<and> threshold_factor ((200 / 3) / (- 40)) = - (8 / 3)"
  by (simp add: sample_transactions_def detect_eval metrics_eval role_eval)

subsection \<open>The threshold-distance factor\<close>

text \<open>Three of the four factors lie in the unit interval on every detection call.\<close>

lemma other_factors_in_unit_interval:
  "0 \<le> insider_factor n \<and> insider_factor n \<le> 1
   \<and> 0 \<le> cluster_factor c \<and> cluster_factor c \<le> 1
   \<and> (1 \<le> mult \<longrightarrow> 0 \<le> role_factor mult \<and> role_factor mult \<le> 1)"
  by (simp add: insider_factor_def cluster_factor_def role_factor_def)

text \<open>
  Claim C6. The claim fails on the code: the factor is \<^verbatim>\<open>min(percentage_sold / threshold - 1.0, 1.0)\<close>,
  capped above only. One CEO selling 30 shares and keeping 70 has the percentage 30 and
  the effective percentage 45, so the input fires at threshold 40; the factor is
  30/40 - 1 = -1/4, where the clamp to the unit interval gives 0, and the confidence is
  9/40 where a factor 0 would give 13/40.
\<close>

theorem threshold_factor_not_clamped_below:
  "map_sum id (\<lambda>m. (percentage_sold m, effective_percentage m))
     (detection_metrics [sale ''John Doe'' ''CEO'' ''2025-01-15'' 30 70]) = Inr (30, 45)
   \<and> map_sum id (map_option (\<lambda>s. (threshold_value s, confidence s)))
        (detect_insider_selling_signal iso_2025
           [sale ''John Doe'' ''CEO'' ''2025-01-15'' 30 70] 40) = Inr (Some (30, 9 / 40))
   \<and> threshold_factor (30 / 40) = - (1 / 4)
   \<and> max 0 (min (30 / 40 - 1) 1) = (0::real)"
  by (simp add: detect_eval metrics_eval role_eval)

end
